theory Spec2Isabelle
  imports Main
begin

section \<open>JavaScript values used by the frontend\<close>

text \<open>
  Source ids are JavaScript numbers that hold database keys: integers. A selection is
  either \<open>null\<close> or such a number, so it is an \<open>int option\<close> with \<open>None\<close> for \<open>null\<close>.
  The frontend tests a selection by truthiness (\<open>if (sourceId)\<close>,
  \<open>selectedSourceId && ...\<close>): \<open>null\<close> and the number \<open>0\<close> are falsy, every other integer
  is truthy.
\<close>

definition truthy :: "int option \<Rightarrow> bool" where
  "truthy v = (case v of None \<Rightarrow> False | Some n \<Rightarrow> n \<noteq> 0)"

text \<open>
  A JSON request body is an object literal whose properties are added in order: an
  association list from property names to values.
\<close>

datatype json = JNum int | JStr string

type_synonym js_object = "(string \<times> json) list"

section \<open>services/api.js: the query call\<close>

text \<open>
  The effects a handler has on the outside world, in the order they happen. The type
  \<open>'e\<close> is the error value a rejected request carries.
\<close>

datatype 'e effect =
    Post string js_object
  | OnDatesUsed "string list"
  | OnInteractionComplete
  | ConsoleError 'e

text \<open>
  \<open>query(question, userId = 1, sourceId = null)\<close>: builds the payload, posts it to
  \<open>/query\<close> and returns the response data; a rejected request throws. The transport is
  the parameter \<open>post\<close>; the result pairs the request that was sent with the outcome.
\<close>

definition query ::
  "(string \<Rightarrow> js_object \<Rightarrow> 'e + 'r) \<Rightarrow> string \<Rightarrow> int \<Rightarrow> int option \<Rightarrow> 'e effect list \<times> ('e + 'r)"
where
  "query post question userId sourceId =
     (let payload = [(''user_id'', JNum userId), (''question'', JStr question)];
          payload' = (case sourceId of
                        Some n \<Rightarrow> if truthy sourceId then payload @ [(''source_id'', JNum n)] else payload
                      | None \<Rightarrow> payload)
      in ([Post ''/query'' payload'], post ''/query'' payload'))"

text \<open>The request bodies among a list of effects.\<close>

fun posted :: "'e effect list \<Rightarrow> js_object list" where
  "posted [] = []"
| "posted (Post u p # es) = p # posted es"
| "posted (e # es) = posted es"

section \<open>components/Chat/ChatInterface.jsx\<close>

record source =
  src_id :: int
  title :: string
  source_type :: string

datatype msg_role = User | Assistant

record metadata =
  meta_sourceTitle :: string
  meta_sourceType :: string
  meta_sourceId :: int

record message =
  role :: msg_role
  content :: string
  timestamp :: int
  msg_context :: "string option"
  meta :: "metadata option"
  isError :: bool

text \<open>The fields of the response that the chat reads.\<close>

record query_response =
  answer :: string
  dates_used :: "string list option"

record chat_state =
  messages :: "message list"
  isLoading :: bool

text \<open>
  Modelled from the spec: the typed failure of the answering pipeline, which is not part
  of the frontend sources. The spec's orchestrator fails with the failing stage
  identified; the stages are those of its state machine.
\<close>

datatype stage = Planning | TimelineRetrieval | DocumentRetrieval | Alignment | Synthesis

definition error_text :: string where
  "error_text = ''Sorry, I encountered an error while processing your question. Please try again.''"

text \<open>
  \<open>handleSendMessage(userMessage)\<close>. The props \<open>onDatesUsed\<close> and
  \<open>onInteractionComplete\<close> are optional callbacks (the booleans say whether they were
  passed); \<open>selectedSourceId\<close> and \<open>selectedSource\<close> are the props of the render the
  handler closes over. \<open>new Date()\<close> is read from the ambient clock twice on every
  path: \<open>t0\<close> when the user's message is built, \<open>t1\<close> when the reply or the error
  message is built. The \<open>finally\<close> block clears \<open>isLoading\<close> on both paths.
\<close>

definition handleSendMessage ::
  "(string \<Rightarrow> js_object \<Rightarrow> 'e + query_response) \<Rightarrow> bool \<Rightarrow> bool \<Rightarrow> int option \<Rightarrow> source option
     \<Rightarrow> int \<Rightarrow> int \<Rightarrow> string \<Rightarrow> chat_state \<Rightarrow> chat_state \<times> 'e effect list"
where
  "handleSendMessage post onDatesUsed onInteractionComplete selectedSourceId selectedSource
       t0 t1 userMessage st =
     (let userMsg = \<lparr>role = User, content = userMessage, timestamp = t0,
                     msg_context = (case selectedSource of
                                  Some s \<Rightarrow> Some (''Source: '' @ title s)
                                | None \<Rightarrow> None),
                     meta = None, isError = False\<rparr>;
          st1 = st\<lparr>messages := messages st @ [userMsg], isLoading := True\<rparr>;
          (sent, outcome) = query post userMessage 1 selectedSourceId
      in case outcome of
           Inr response \<Rightarrow>
             (let assistantMsg = \<lparr>role = Assistant, content = answer response, timestamp = t1,
                                  msg_context = None,
                                  meta = (case selectedSource of
                                            Some s \<Rightarrow> Some \<lparr>meta_sourceTitle = title s,
                                                             meta_sourceType = source_type s,
                                                             meta_sourceId = src_id s\<rparr>
                                          | None \<Rightarrow> None),
                                  isError = False\<rparr>;
                  st2 = st1\<lparr>messages := messages st1 @ [assistantMsg]\<rparr>;
                  dates = (case dates_used response of
                             Some ds \<Rightarrow> if onDatesUsed then [OnDatesUsed ds] else []
                           | None \<Rightarrow> []);
                  completed = (if onInteractionComplete then [OnInteractionComplete] else [])
              in (st2\<lparr>isLoading := False\<rparr>, sent @ dates @ completed))
         | Inl error \<Rightarrow>
             (let errorMsg = \<lparr>role = Assistant, content = error_text, timestamp = t1,
                              msg_context = None, meta = None, isError = True\<rparr>;
                  st2 = st1\<lparr>messages := messages st1 @ [errorMsg]\<rparr>
              in (st2\<lparr>isLoading := False\<rparr>, sent @ [ConsoleError error])))"

text \<open>Concrete transports and values used to run the handler on examples.\<close>

definition source_restriction :: "js_object \<Rightarrow> json option" where
  "source_restriction p = map_of p ''source_id''"


definition failing :: "stage \<Rightarrow> string \<Rightarrow> js_object \<Rightarrow> stage + query_response" where
  "failing s u p = Inl s"

definition standup :: source where
  "standup = \<lparr>src_id = 0, title = ''Standup'', source_type = ''audio''\<rparr>"

definition report :: source where
  "report = \<lparr>src_id = 42, title = ''Report'', source_type = ''pdf''\<rparr>"


definition chat0 :: chat_state where
  "chat0 = \<lparr>messages = [], isLoading = False\<rparr>"

section \<open>App.jsx: the source list and the focus selection\<close>

text \<open>
  The two pieces of \<open>App\<close> state that the focus selection depends on. The other state
  (timelines, session, highlighted dates) is never read by the code below.
\<close>

record app =
  sources :: "source list"
  selectedSourceId :: "int option"

definition app_init :: app where
  "app_init = \<lparr>sources = [], selectedSourceId = None\<rparr>"

text \<open>
  The effect on \<open>[sources, selectedSourceId]\<close>: a truthy selection that no loaded source
  carries is reset to \<open>null\<close>.
\<close>

definition focus_effect :: "app \<Rightarrow> app" where
  "focus_effect st =
     (if truthy (selectedSourceId st) \<and>
         \<not> list_ex (\<lambda>source. Some (src_id source) = selectedSourceId st) (sources st)
      then st\<lparr>selectedSourceId := None\<rparr> else st)"

text \<open>
  \<open>handleSourceDelete(sourceId)\<close>: nothing happens when the user declines the
  confirmation or when \<open>deleteSource\<close> throws. The handler is asynchronous: after
  \<open>await deleteSource\<close> it compares \<open>sourceId\<close> with the \<open>selectedSourceId\<close> of the
  render in which the button was clicked (\<open>captured\<close>, the value its closure holds),
  and clears the selection of the state at that later moment (\<open>st\<close>) when they are
  equal. The reloads that follow arrive later, as \<open>SourcesLoaded\<close>.
\<close>

definition handleSourceDelete :: "bool \<Rightarrow> bool \<Rightarrow> int \<Rightarrow> int option \<Rightarrow> app \<Rightarrow> app" where
  "handleSourceDelete confirmed deleted sourceId captured st =
     (if \<not> confirmed then st
      else if \<not> deleted then st
      else if captured = Some sourceId then st\<lparr>selectedSourceId := None\<rparr>
      else st)"

text \<open>
  \<open>handleSessionSourceRemove(sourceId)\<close>, asynchronous in the same way: \<open>removed\<close> is
  false when \<open>removeSessionSource\<close> throws, \<open>captured\<close> is the selection of the render
  in which the button was clicked, \<open>st\<close> the state when the request has returned.
\<close>

definition handleSessionSourceRemove :: "bool \<Rightarrow> int \<Rightarrow> int option \<Rightarrow> app \<Rightarrow> app" where
  "handleSessionSourceRemove removed sourceId captured st =
     (if \<not> removed then st
      else if captured = Some sourceId then st\<lparr>selectedSourceId := None\<rparr>
      else st)"

text \<open>
  \<open>handleClearSession()\<close>: after the confirmation and a successful \<open>clearSession\<close> the
  selection is cleared; the handler reads no state.
\<close>

definition handleClearSession :: "bool \<Rightarrow> bool \<Rightarrow> app \<Rightarrow> app" where
  "handleClearSession confirmed cleared st =
     (if \<not> confirmed then st
      else if \<not> cleared then st
      else st\<lparr>selectedSourceId := None\<rparr>)"

text \<open>
  \<open>SourceSelector.handlePillClick(sourceId)\<close> and the session card's click: clicking the
  selected source clears the selection, clicking another source selects it.
\<close>

definition handlePillClick :: "int \<Rightarrow> app \<Rightarrow> app" where
  "handlePillClick sourceId st =
     st\<lparr>selectedSourceId := (if Some sourceId = selectedSourceId st then None else Some sourceId)\<rparr>"

text \<open>
  The running page: the React state and the requests in flight. A delete or remove
  request in flight is the source id it was issued for together with the selection its
  handler captured when the button was clicked.
\<close>

record page =
  ui :: app
  deleting :: "(int \<times> int option) list"
  removing :: "(int \<times> int option) list"

definition page_init :: page where
  "page_init = \<lparr>ui = app_init, deleting = [], removing = []\<rparr>"

text \<open>
  Everything that changes the two state variables. \<open>SourcesLoaded\<close> is a resolved
  \<open>loadSources\<close> (\<open>setSources(response.sources || [])\<close>); \<open>Select\<close> is a direct
  \<open>setSelectedSourceId\<close> (the dropdown, the Clear button). \<open>DeleteClick\<close> is a click on
  a source's delete button with the answer to the confirmation; \<open>DeleteSettled k ok\<close>
  is the moment the \<open>k\<close>-th delete request in flight returns (\<open>ok\<close>) or throws, in
  whatever order the requests settle. \<open>RemoveClick\<close> and \<open>RemoveSettled\<close> are the same
  for the session panel. \<open>ClearSession\<close> is the moment \<open>clearSession\<close> has settled.
\<close>

datatype app_event =
    SourcesLoaded "source list"
  | Select "int option"
  | PillClick int
  | DeleteClick bool int
  | DeleteSettled nat bool
  | RemoveClick int
  | RemoveSettled nat bool
  | ClearSession bool bool

fun handle :: "app_event \<Rightarrow> page \<Rightarrow> page" where
  "handle (SourcesLoaded xs) p = p\<lparr>ui := (ui p)\<lparr>sources := xs\<rparr>\<rparr>"
| "handle (Select v) p = p\<lparr>ui := (ui p)\<lparr>selectedSourceId := v\<rparr>\<rparr>"
| "handle (PillClick sourceId) p = p\<lparr>ui := handlePillClick sourceId (ui p)\<rparr>"
| "handle (DeleteClick confirmed sourceId) p =
     (if confirmed then p\<lparr>deleting := deleting p @ [(sourceId, selectedSourceId (ui p))]\<rparr> else p)"
| "handle (DeleteSettled k deleted) p =
     (if k < length (deleting p)
      then p\<lparr>ui := handleSourceDelete True deleted (fst (deleting p ! k)) (snd (deleting p ! k)) (ui p),
             deleting := take k (deleting p) @ drop (Suc k) (deleting p)\<rparr>
      else p)"
| "handle (RemoveClick sourceId) p =
     p\<lparr>removing := removing p @ [(sourceId, selectedSourceId (ui p))]\<rparr>"
| "handle (RemoveSettled k removed) p =
     (if k < length (removing p)
      then p\<lparr>ui := handleSessionSourceRemove removed (fst (removing p ! k)) (snd (removing p ! k)) (ui p),
             removing := take k (removing p) @ drop (Suc k) (removing p)\<rparr>
      else p)"
| "handle (ClearSession confirmed cleared) p = p\<lparr>ui := handleClearSession confirmed cleared (ui p)\<rparr>"

text \<open>One state update followed by the effect that React runs after the render.\<close>

definition app_step :: "page \<Rightarrow> app_event \<Rightarrow> page" where
  "app_step p ev = (handle ev p)\<lparr>ui := focus_effect (ui (handle ev p))\<rparr>"

fun run :: "page \<Rightarrow> app_event list \<Rightarrow> page" where
  "run p [] = p"
| "run p (ev # evs) = run (app_step p ev) evs"

text \<open>Two more sources for examples.\<close>

definition minutes :: source where
  "minutes = \<lparr>src_id = 5, title = ''Minutes'', source_type = ''md''\<rparr>"

definition article :: source where
  "article = \<lparr>src_id = 7, title = ''Article'', source_type = ''webpage''\<rparr>"

text \<open>The selection names a loaded source.\<close>

definition selection_loaded :: "app \<Rightarrow> bool" where
  "selection_loaded st =
     (case selectedSourceId st of
        None \<Rightarrow> True
      | Some n \<Rightarrow> list_ex (\<lambda>source. src_id source = n) (sources st))"

text \<open>
  The selection is \<open>null\<close>, or the number \<open>0\<close>, or names a loaded source: what the
  effect establishes.
\<close>

definition focus_ok :: "app \<Rightarrow> bool" where
  "focus_ok st =
     (case selectedSourceId st of
        None \<Rightarrow> True
      | Some n \<Rightarrow> if n = 0 then True else list_ex (\<lambda>source. src_id source = n) (sources st))"

text \<open>\<open>sources.find((source) => source.id === selectedSourceId) || null\<close>, the prop the chat gets.\<close>

definition selectedSource_of :: "app \<Rightarrow> source option" where
  "selectedSource_of st =
     (case selectedSourceId st of
        None \<Rightarrow> None
      | Some n \<Rightarrow> find (\<lambda>source. src_id source = n) (sources st))"

section \<open>components/Chat/InputBox.jsx\<close>

text \<open>
  Strings are lists of code units below 256. \<open>String.prototype.trim\<close> removes white
  space and line terminators from both ends; below 256 these are TAB, LF, VT, FF, CR,
  SPACE and NBSP.
\<close>

definition is_space :: "char \<Rightarrow> bool" where
  "is_space c = (of_char c \<in> {9, 10, 11, 12, 13, 32, 160 :: nat})"

definition trim :: "string \<Rightarrow> string" where
  "trim s = rev (dropWhile is_space (rev (dropWhile is_space s)))"

text \<open>
  \<open>handleSubmit(e)\<close>: the new value of the input state and the calls of \<open>onSend\<close>. A
  non-empty string is truthy.
\<close>

definition handleSubmit :: "bool \<Rightarrow> string \<Rightarrow> string \<times> string list" where
  "handleSubmit disabled input =
     (if trim input \<noteq> [] \<and> \<not> disabled then ([], [trim input]) else (input, []))"

text \<open>\<open>handleKeyPress(e)\<close>, from \<open>e.key\<close> and \<open>e.shiftKey\<close>.\<close>

definition handleKeyPress :: "bool \<Rightarrow> string \<Rightarrow> bool \<Rightarrow> string \<Rightarrow> string \<times> string list" where
  "handleKeyPress disabled key shiftKey input =
     (if key = ''Enter'' \<and> \<not> shiftKey then handleSubmit disabled input else (input, []))"

datatype box_event = FormSubmit | KeyPress string bool | Change string

fun box_step :: "bool \<Rightarrow> string \<Rightarrow> box_event \<Rightarrow> string \<times> string list" where
  "box_step disabled input FormSubmit = handleSubmit disabled input"
| "box_step disabled input (KeyPress key shiftKey) = handleKeyPress disabled key shiftKey input"
| "box_step disabled input (Change v) = (v, [])"

section \<open>components/Upload/UploadPanel.jsx\<close>

text \<open>\<open>s.split(sep)\<close> for a one-character separator: never an empty array.\<close>

fun split_on :: "char \<Rightarrow> string \<Rightarrow> string list" where
  "split_on sep [] = [[]]"
| "split_on sep (c # cs) =
     (if c = sep then [] # split_on sep cs
      else (case split_on sep cs of
              w # ws \<Rightarrow> (c # w) # ws
            | [] \<Rightarrow> [[c]]))"

text \<open>\<open>toLowerCase\<close> on code units below 256: A-Z and the capital letters of Latin-1.\<close>

definition toLowerCase_char :: "char \<Rightarrow> char" where
  "toLowerCase_char c =
     (let n = of_char c :: nat
      in if (65 \<le> n \<and> n \<le> 90) \<or> (192 \<le> n \<and> n \<le> 222 \<and> n \<noteq> 215) then char_of (n + 32) else c)"

definition toLowerCase :: "string \<Rightarrow> string" where
  "toLowerCase s = map toLowerCase_char s"

text \<open>
  \<open>file.name.split('.').pop().toLowerCase()\<close>. \<open>pop\<close> of an empty array is
  \<open>undefined\<close>, on which \<open>toLowerCase\<close> throws: \<open>None\<close>.
\<close>

definition fileExtension :: "string \<Rightarrow> string option" where
  "fileExtension name =
     (case split_on (CHR ''.'') name of
        [] \<Rightarrow> None
      | segs \<Rightarrow> Some (toLowerCase (last segs)))"

definition audio_extensions :: "string list" where
  "audio_extensions = [''mp3'', ''m4a'', ''wav'', ''ogg'']"

definition document_extensions :: "string list" where
  "document_extensions = [''pdf'', ''md'', ''txt'']"

text \<open>The arguments of \<open>ingestAudio(file, userId, title)\<close> and \<open>ingestDocument\<close>.\<close>

datatype ingest_call = IngestAudio string int string | IngestDocument string int string

record ingest_result =
  ingested_title :: string
  events_created :: nat

text \<open>The text shown under the panel, by the template that built it.\<close>

datatype notice =
    NoNotice
  | Uploading string
  | AudioIngested string nat
  | DocumentIngested string nat
  | UnsupportedType string
  | UploadFailed string

record upload_state =
  isUploading :: bool
  upload_message :: notice

datatype upload_effect = Call ingest_call | UploadComplete | ClearInput | LogError string

text \<open>
  \<open>handleFileUpload(event)\<close>. \<open>file\<close> is \<open>event.target.files[0]\<close> (its name), \<open>None\<close>
  when no file was chosen; \<open>api\<close> answers an ingestion call with its result or with the
  message of the error it throws; \<open>onUploadComplete\<close> says whether the callback prop was
  passed.
\<close>

definition handleFileUpload ::
  "(ingest_call \<Rightarrow> string + ingest_result) \<Rightarrow> bool \<Rightarrow> string option \<Rightarrow> upload_state
     \<Rightarrow> upload_state \<times> upload_effect list"
where
  "handleFileUpload api onUploadComplete file st =
     (case file of
        None \<Rightarrow> (st, [])
      | Some name \<Rightarrow>
          (let st1 = st\<lparr>isUploading := True, upload_message := Uploading name\<rparr>;
               completed = (if onUploadComplete then [UploadComplete] else [])
           in case fileExtension name of
                None \<Rightarrow>
                  (st1\<lparr>upload_message := UploadFailed ''TypeError'', isUploading := False\<rparr>,
                   [LogError ''TypeError''])
              | Some ext \<Rightarrow>
                  if ext \<in> set audio_extensions then
                    (case api (IngestAudio name 1 name) of
                       Inr result \<Rightarrow>
                         (st1\<lparr>upload_message := AudioIngested (ingested_title result) (events_created result),
                              isUploading := False\<rparr>,
                          [Call (IngestAudio name 1 name)] @ completed @ [ClearInput])
                     | Inl err \<Rightarrow>
                         (st1\<lparr>upload_message := UploadFailed err, isUploading := False\<rparr>,
                          [Call (IngestAudio name 1 name), LogError err]))
                  else if ext \<in> set document_extensions then
                    (case api (IngestDocument name 1 name) of
                       Inr result \<Rightarrow>
                         (st1\<lparr>upload_message := DocumentIngested (ingested_title result) (events_created result),
                              isUploading := False\<rparr>,
                          [Call (IngestDocument name 1 name)] @ completed @ [ClearInput])
                     | Inl err \<Rightarrow>
                         (st1\<lparr>upload_message := UploadFailed err, isUploading := False\<rparr>,
                          [Call (IngestDocument name 1 name), LogError err]))
                  else
                    (st1\<lparr>upload_message := UnsupportedType ext, isUploading := False\<rparr>, [])))"

fun ingest_calls :: "upload_effect list \<Rightarrow> ingest_call list" where
  "ingest_calls [] = []"
| "ingest_calls (Call c # es) = c # ingest_calls es"
| "ingest_calls (e # es) = ingest_calls es"

text \<open>Backends for examples: one that ingests everything, one that always throws.\<close>

definition ingest_ok :: "ingest_call \<Rightarrow> string + ingest_result" where
  "ingest_ok c = Inr \<lparr>ingested_title = ''notes'', events_created = 3\<rparr>"

definition ingest_down :: "ingest_call \<Rightarrow> string + ingest_result" where
  "ingest_down c = Inl ''Network Error''"

definition idle :: upload_state where
  "idle = \<lparr>isUploading = False, upload_message = NoNotice\<rparr>"

section \<open>The Planner's date resolution\<close>

text \<open>
  The answering pipeline is backend code and not part of the frontend sources; the
  definitions of this and the next section follow the specification's words.

  Modelled from the spec: calendar dates, which the Planner's temporal resolution works
  on. A date is its proleptic Gregorian ordinal (day 1 is 0001-01-01, a Monday), so that
  \<open>D - 1\<close> is the day before \<open>D\<close>.
\<close>

type_synonym date = int

datatype weekday = Monday | Tuesday | Wednesday | Thursday | Friday | Saturday | Sunday

fun weekday_index :: "weekday \<Rightarrow> int" where
  "weekday_index Monday = 0"
| "weekday_index Tuesday = 1"
| "weekday_index Wednesday = 2"
| "weekday_index Thursday = 3"
| "weekday_index Friday = 4"
| "weekday_index Saturday = 5"
| "weekday_index Sunday = 6"

definition weekday_of :: "date \<Rightarrow> int" where
  "weekday_of d = (d + 6) mod 7"

definition is_leap :: "int \<Rightarrow> bool" where
  "is_leap y = (if y mod 400 = 0 then True else if y mod 100 = 0 then False else y mod 4 = 0)"

definition month_lengths :: "int \<Rightarrow> int list" where
  "month_lengths y = [31, if is_leap y then 29 else 28, 31, 30, 31, 30, 31, 31, 30, 31, 30, 31]"

definition days_before_year :: "int \<Rightarrow> int" where
  "days_before_year y = (y - 1) * 365 + (y - 1) div 4 - (y - 1) div 100 + (y - 1) div 400"

definition ordinal :: "int \<Rightarrow> nat \<Rightarrow> int \<Rightarrow> date" where
  "ordinal y m d = days_before_year y + sum_list (take (m - 1) (month_lengths y)) + d"

text \<open>
  Modelled from the spec: the Planner's resolution of a relative expression against the
  supplied current date (section 4.1): "yesterday" is the day before; "last Tuesday"
  means the most recent Tuesday strictly before today, and likewise for the other days.
\<close>

datatype relative_expr = Today | Yesterday | LastWeekday weekday

fun resolve_relative :: "date \<Rightarrow> relative_expr \<Rightarrow> date" where
  "resolve_relative D Today = D"
| "resolve_relative D Yesterday = D - 1"
| "resolve_relative D (LastWeekday wd) = D - (1 + (weekday_of D - weekday_index wd - 1) mod 7)"

section \<open>The Synthesizer\<close>

text \<open>
  Modelled from the spec: the chunks of section 3, by the fields the result is computed
  from. A timeline chunk carries its date, a document chunk its source title.
\<close>

record timeline_chunk =
  tl_text :: string
  tl_date :: date

record document_chunk =
  doc_text :: string
  doc_source :: string

text \<open>
  Modelled from the spec: "the sorted-deduplicated list of dates referenced (drawn only
  from timeline chunks actually used)" (section 4.5). Each date is inserted at its place
  in the ascending list unless it is there already.
\<close>

fun insert_date :: "date \<Rightarrow> date list \<Rightarrow> date list" where
  "insert_date d [] = [d]"
| "insert_date d (x # xs) =
     (if d < x then d # x # xs else if d = x then x # xs else x # insert_date d xs)"

definition dates_of :: "timeline_chunk list \<Rightarrow> date list" where
  "dates_of chunks = foldr insert_date (map tl_date chunks) []"

text \<open>
  Modelled from the spec: the Generation collaborator's fatal failure (section 7) and the
  generative calls the Synthesizer issues, numbered by attempt.
\<close>

datatype gen_failure = GenerationFailure

datatype gen_call = DraftCall nat | SelfCheckCall nat

text \<open>
  Modelled from the spec: the Synthesizer's bounded self-correction (section 4.5). It
  drafts, self-checks, and while the check fails and regenerations remain it drafts
  again; the last allowed draft is accepted whatever its self-check says. \<open>draft k\<close> is
  the outcome of the \<open>k\<close>-th generative draft call for this query and \<open>check k text\<close>
  the outcome of the self-check of that draft; a fatal outcome aborts. The result pairs
  the calls issued, in order, with the accepted draft and whether the first self-check
  passed.
\<close>

fun draft_loop ::
  "(nat \<Rightarrow> gen_failure + string) \<Rightarrow> (nat \<Rightarrow> string \<Rightarrow> gen_failure + bool) \<Rightarrow> nat \<Rightarrow> nat
     \<Rightarrow> gen_call list \<times> (gen_failure + string \<times> bool)"
where
  "draft_loop draft check attempt 0 =
     (case draft attempt of
        Inl f \<Rightarrow> ([DraftCall attempt], Inl f)
      | Inr text \<Rightarrow>
          (case check attempt text of
             Inl f \<Rightarrow> ([DraftCall attempt, SelfCheckCall attempt], Inl f)
           | Inr ok \<Rightarrow> ([DraftCall attempt, SelfCheckCall attempt], Inr (text, ok \<and> attempt = 0))))"
| "draft_loop draft check attempt (Suc left) =
     (case draft attempt of
        Inl f \<Rightarrow> ([DraftCall attempt], Inl f)
      | Inr text \<Rightarrow>
          (case check attempt text of
             Inl f \<Rightarrow> ([DraftCall attempt, SelfCheckCall attempt], Inl f)
           | Inr ok \<Rightarrow>
               if ok then ([DraftCall attempt, SelfCheckCall attempt], Inr (text, attempt = 0))
               else (let (calls, r) = draft_loop draft check (Suc attempt) left
                     in ([DraftCall attempt, SelfCheckCall attempt] @ calls, r))))"

text \<open>Modelled from the spec: the adopted default, at most one regeneration (section 9).\<close>

definition max_regenerations :: nat where
  "max_regenerations = 1"

text \<open>
  Modelled from the spec: the query result of section 6, without the confidence value,
  for which the spec gives a range and no formula.
\<close>

record query_result =
  result_answer :: string
  timelineChunks :: "timeline_chunk list"
  documentChunks :: "document_chunk list"
  datesUsed :: "date list"
  first_check_passed :: bool

text \<open>
  Modelled from the spec: the Synthesizer's output (section 4.5). \<open>cites\<close> and
  \<open>cites_doc\<close> say which chunks of the merged context the accepted answer used; the
  dates are drawn from the timeline chunks among them.
\<close>

definition synthesize ::
  "(nat \<Rightarrow> gen_failure + string) \<Rightarrow> (nat \<Rightarrow> string \<Rightarrow> gen_failure + bool)
     \<Rightarrow> (string \<Rightarrow> timeline_chunk \<Rightarrow> bool) \<Rightarrow> (string \<Rightarrow> document_chunk \<Rightarrow> bool)
     \<Rightarrow> timeline_chunk list \<Rightarrow> document_chunk list
     \<Rightarrow> gen_call list \<times> (gen_failure + query_result)"
where
  "synthesize draft check cites cites_doc timeline documents =
     (let (calls, r) = draft_loop draft check 0 max_regenerations
      in (calls,
          case r of
            Inl f \<Rightarrow> Inl f
          | Inr (text, passed) \<Rightarrow>
              Inr \<lparr>result_answer = text,
                   timelineChunks = filter (cites text) timeline,
                   documentChunks = filter (cites_doc text) documents,
                   datesUsed = dates_of (filter (cites text) timeline),
                   first_check_passed = passed\<rparr>))"

fun draft_calls :: "gen_call list \<Rightarrow> nat" where
  "draft_calls [] = 0"
| "draft_calls (DraftCall k # cs) = Suc (draft_calls cs)"
| "draft_calls (SelfCheckCall k # cs) = draft_calls cs"

text \<open>A generation collaborator and a context for examples.\<close>

fun two_drafts :: "nat \<Rightarrow> gen_failure + string" where
  "two_drafts 0 = Inr ''first draft''"
| "two_drafts (Suc k) = Inr ''second draft''"

definition second_passes :: "nat \<Rightarrow> string \<Rightarrow> gen_failure + bool" where
  "second_passes k text = Inr (k = 1)"

definition cites_all :: "string \<Rightarrow> timeline_chunk \<Rightarrow> bool" where
  "cites_all text c = True"

definition cites_all_doc :: "string \<Rightarrow> document_chunk \<Rightarrow> bool" where
  "cites_all_doc text c = True"

definition meeting_chunks :: "timeline_chunk list" where
  "meeting_chunks =
     [\<lparr>tl_text = ''Q4 sales exceeded targets by 15%'', tl_date = ordinal 2024 1 9\<rparr>,
      \<lparr>tl_text = ''Budget review moved'', tl_date = ordinal 2024 1 8\<rparr>,
      \<lparr>tl_text = ''Hiring plan agreed'', tl_date = ordinal 2024 1 9\<rparr>]"

definition meeting_result :: query_result where
  "meeting_result =
     \<lparr>result_answer = ''second draft'', timelineChunks = meeting_chunks, documentChunks = [],
      datesUsed = [ordinal 2024 1 8, ordinal 2024 1 9], first_check_passed = False\<rparr>"

section \<open>The answering boundary\<close>

text \<open>
  Modelled from the spec: the events of the Event Store (section 3), which is an
  external collaborator of the pipeline and not part of the frontend sources.
\<close>

datatype modality = TimelineEligible | DocumentEligible

record event =
  ev_id :: nat
  ev_user :: int
  ev_source :: int
  ev_modality :: modality
  ev_text :: string
  ev_date :: date









fun insert_ranked :: "(event \<Rightarrow> event \<Rightarrow> bool) \<Rightarrow> event \<Rightarrow> event list \<Rightarrow> event list" where
  "insert_ranked precedes e [] = [e]"
| "insert_ranked precedes e (x # xs) =
     (if precedes e x then e # x # xs else x # insert_ranked precedes e xs)"

definition top_ranked :: "nat \<Rightarrow> (event \<Rightarrow> event \<Rightarrow> bool) \<Rightarrow> event list \<Rightarrow> event list" where
  "top_ranked k precedes es = take k (foldr (insert_ranked precedes) es [])"
















section \<open>Properties of the query request\<close>

lemma posted_append: "posted (xs @ ys) = posted xs @ posted ys"
  by (induction xs rule: posted.induct) simp_all

lemma posted_handleSendMessage:
  "posted (snd (handleSendMessage post d i sid src t0 t1 msg st)) = posted (fst (query post msg 1 sid))"
  by (simp add: handleSendMessage_def query_def Let_def posted_append
      split: sum.splits option.splits)

lemma posted_query:
  "posted (fst (query post question userId sourceId))
     = [[(''user_id'', JNum userId), (''question'', JStr question)]
        @ (case sourceId of Some n \<Rightarrow> if n \<noteq> 0 then [(''source_id'', JNum n)] else [] | None \<Rightarrow> [])]"
  by (simp add: query_def truthy_def Let_def split: option.splits)

text \<open>
  Every question leads to exactly one request to \<open>/query\<close>, made of the user id \<open>1\<close>,
  the question and, for a truthy selection, the source id. The browser's clock is read
  only for the timestamps of the displayed messages.
\<close>

lemma request_fields:
  "posted (snd (handleSendMessage post d i sid src t0 t1 msg st))
     = [[(''user_id'', JNum 1), (''question'', JStr msg)]
        @ (case sid of Some n \<Rightarrow> if n \<noteq> 0 then [(''source_id'', JNum n)] else [] | None \<Rightarrow> [])]"
  by (simp add: posted_handleSendMessage posted_query)

text \<open>
  With a selected source whose id is not \<open>0\<close> the request carries that id, and with no
  selection it carries no source restriction.
\<close>

lemma nonzero_selection_restricts:
  "n \<noteq> 0 \<Longrightarrow>
     map source_restriction (posted (snd (handleSendMessage post d i (Some n) src t0 t1 msg st)))
       = [Some (JNum n)]"
  by (simp add: request_fields source_restriction_def)

lemma no_selection_unrestricted:
  "map source_restriction (posted (snd (handleSendMessage post d i None src t0 t1 msg st))) = [None]"
  by (simp add: request_fields source_restriction_def)


section \<open>Properties of a failed query\<close>

text \<open>
  C3 (as amended). When the query request is rejected, the chat gains the user's message
  and exactly one error message, whose text is the same fixed sentence whatever failed;
  nothing of the failed query is shown and neither callback runs (the only effects are
  the request and the console log of the error).
\<close>

theorem handleSendMessage_failure:
  assumes "snd (query post msg 1 sid) = Inl e"
  shows "fst (handleSendMessage post d i sid src t0 t1 msg st)
           = st\<lparr>messages := messages st @
                 [\<lparr>role = User, content = msg, timestamp = t0,
                   msg_context = map_option (\<lambda>s. ''Source: '' @ title s) src,
                   meta = None, isError = False\<rparr>,
                  \<lparr>role = Assistant, content = error_text, timestamp = t1,
                   msg_context = None, meta = None, isError = True\<rparr>],
               isLoading := False\<rparr>
         \<and> snd (handleSendMessage post d i sid src t0 t1 msg st)
           = fst (query post msg 1 sid) @ [ConsoleError e]"
proof -
  obtain sent where q: "query post msg 1 sid = (sent, Inl e)"
    using assms by (cases "query post msg 1 sid") simp
  show ?thesis
    by (cases src) (simp_all add: handleSendMessage_def q Let_def)
qed

theorem handleSendMessage_failure_witness:
  "fst (handleSendMessage (failing Synthesis) True True (Some 42) (Some report) 10 20 ''Why?'' chat0)
     = \<lparr>messages =
          [\<lparr>role = User, content = ''Why?'', timestamp = 10,
            msg_context = Some ''Source: Report'', meta = None, isError = False\<rparr>,
           \<lparr>role = Assistant, content = error_text, timestamp = 20,
            msg_context = None, meta = None, isError = True\<rparr>],
        isLoading = False\<rparr> \<and>
   snd (handleSendMessage (failing Synthesis) True True (Some 42) (Some report) 10 20 ''Why?'' chat0)
     = [Post ''/query'' [(''user_id'', JNum 1), (''question'', JStr ''Why?''), (''source_id'', JNum 42)],
        ConsoleError Synthesis]"
proof -
  have h: "snd (query (failing Synthesis) ''Why?'' 1 (Some 42)) = Inl Synthesis"
    by (simp add: query_def failing_def Let_def)
  show ?thesis
    using handleSendMessage_failure [OF h, of True True "Some report" 10 20 chat0]
    by (simp add: query_def truthy_def report_def chat0_def Let_def)
qed

text \<open>
  C3 as stated fails in one part: the error report does not identify the failing stage.
  A failure in planning and a failure in synthesis leave the chat in the same state, with
  the same fixed text.
\<close>

theorem handleSendMessage_stage_counterexample:
  "fst (handleSendMessage (failing Planning) True True None None 10 20 ''Why?'' chat0)
     = fst (handleSendMessage (failing Synthesis) True True None None 10 20 ''Why?'' chat0) \<and>
   map content (messages (fst (handleSendMessage (failing Planning) True True None None 10 20 ''Why?'' chat0)))
     = [''Why?'', error_text]"
  by (simp add: handleSendMessage_def query_def failing_def chat0_def Let_def)

section \<open>Properties of the focus selection\<close>

lemma focus_ok_effect: "focus_ok (focus_effect st)"
  by (auto simp: focus_ok_def focus_effect_def truthy_def list_ex_iff split: option.splits)

lemma focus_ok_step: "focus_ok (ui (app_step p ev))"
  by (simp add: app_step_def focus_ok_effect)

lemma focus_ok_run: "focus_ok (ui p) \<Longrightarrow> focus_ok (ui (run p evs))"
  by (induction evs arbitrary: p) (simp_all add: focus_ok_step)

lemma focus_ok_init: "focus_ok (ui page_init)"
  by (simp add: focus_ok_def page_init_def app_init_def)

lemma focus_effect_idem: "focus_effect (focus_effect st) = focus_effect st"
  by (simp add: focus_effect_def truthy_def)

text \<open>
  What the effect does establish. After every state update and the effect that follows
  it, the selected id is \<open>null\<close>, or \<open>0\<close>, or the id of a loaded source; so a selection
  other than \<open>0\<close> always names a loaded source.
\<close>

lemma focus_ok_reachable: "focus_ok (ui (run page_init evs))"
  by (simp add: focus_ok_run focus_ok_init)

lemma nonzero_selection_loaded:
  "selectedSourceId (ui (run page_init evs)) \<noteq> Some 0 \<Longrightarrow> selection_loaded (ui (run page_init evs))"
  using focus_ok_reachable [of evs]
  by (auto simp: focus_ok_def selection_loaded_def split: option.splits if_splits)

lemma missing_nonzero_selection_reset:
  "selectedSourceId (ui p) = Some n \<Longrightarrow> n \<noteq> 0 \<Longrightarrow> \<not> list_ex (\<lambda>source. src_id source = n) xs \<Longrightarrow>
     selectedSourceId (ui (app_step p (SourcesLoaded xs))) = None"
  by (auto simp: app_step_def focus_effect_def truthy_def list_ex_iff)

text \<open>
  The delete handler compares with \<open>===\<close>: when the deleted source is the one that was
  selected at the click, the selection is cleared whatever its id, \<open>0\<close> included.
\<close>

lemma delete_resets_captured_selection:
  "selectedSourceId (handleSourceDelete True True n (Some n) st) = None"
  by (simp add: handleSourceDelete_def)

text \<open>
  The comparison is with the selection captured at the click. A delete of the selected
  source \<open>5\<close> that returns after the user has moved on to source \<open>7\<close> clears that new
  selection; a delete of source \<open>5\<close> clicked while nothing was selected does not clear a
  selection of \<open>5\<close> made while the request was in flight, which the effect clears once
  the reloaded list lacks the source.
\<close>

lemma late_delete_clears_new_selection:
  "selectedSourceId (ui (run page_init
      [SourcesLoaded [minutes, article], Select (Some 5), DeleteClick True 5, Select (Some 7),
       DeleteSettled 0 True])) = None"
  by (simp add: page_init_def app_init_def app_step_def focus_effect_def truthy_def
      handleSourceDelete_def minutes_def article_def)

lemma selection_during_delete_kept:
  "selectedSourceId (ui (run page_init
      [SourcesLoaded [minutes, article], DeleteClick True 5, Select (Some 5),
       DeleteSettled 0 True])) = Some 5 \<and>
   selectedSourceId (ui (run page_init
      [SourcesLoaded [minutes, article], DeleteClick True 5, Select (Some 5),
       DeleteSettled 0 True, SourcesLoaded [article]])) = None"
  by (simp add: page_init_def app_init_def app_step_def focus_effect_def truthy_def
      handleSourceDelete_def minutes_def article_def)


text \<open>
  A click on the pill of the source with id \<open>0\<close> selects it: the chat then gets the
  selection \<open>0\<close> and that source as its props.
\<close>

lemma zero_source_selected:
  "selectedSourceId (ui (run page_init [SourcesLoaded [standup, report], PillClick 0])) = Some 0 \<and>
   selectedSource_of (ui (run page_init [SourcesLoaded [standup, report], PillClick 0])) = Some standup"
  by (simp add: page_init_def app_init_def app_step_def focus_effect_def handlePillClick_def truthy_def
      selectedSource_of_def standup_def report_def)

section \<open>Properties of the input box\<close>

lemma trim_question: "trim ''  what happened?  '' = ''what happened?''"
  by (simp add: trim_def is_space_def)

lemma trim_blank: "trim ''   '' = []"
  by (simp add: trim_def is_space_def)

lemma other_keys_send_nothing:
  "key \<noteq> ''Enter'' \<or> shiftKey \<Longrightarrow> box_step disabled input (KeyPress key shiftKey) = (input, [])"
  by (auto simp: handleKeyPress_def)

text \<open>
  C8. On a form submit or a plain Enter, \<open>onSend\<close> is called exactly when the trimmed
  input is non-empty and the box is not disabled; it is called once, with the trimmed
  text, and the input becomes the empty string; otherwise nothing is sent and the input
  is unchanged.
\<close>

theorem handleSubmit_sends_trimmed:
  "ev = FormSubmit \<or> ev = KeyPress ''Enter'' False \<Longrightarrow>
     snd (box_step disabled input ev) = (if trim input \<noteq> [] \<and> \<not> disabled then [trim input] else []) \<and>
     fst (box_step disabled input ev) = (if trim input \<noteq> [] \<and> \<not> disabled then [] else input)"
  by (auto simp: handleSubmit_def handleKeyPress_def)

theorem handleSubmit_sends_trimmed_witness:
  "box_step False ''  what happened?  '' (KeyPress ''Enter'' False) = ([], [''what happened?'']) \<and>
   box_step True ''  what happened?  '' FormSubmit = (''  what happened?  '', []) \<and>
   box_step False ''   '' FormSubmit = (''   '', [])"
  using handleSubmit_sends_trimmed [of "KeyPress ''Enter'' False" False "''  what happened?  ''"]
    handleSubmit_sends_trimmed [of FormSubmit True "''  what happened?  ''"]
    handleSubmit_sends_trimmed [of FormSubmit False "''   ''"]
  by (simp add: trim_question trim_blank prod_eq_iff)

section \<open>Properties of the upload panel\<close>

lemma split_on_nonempty: "split_on sep s \<noteq> []"
  by (induction s) (auto split: list.splits)

text \<open>
  The extension is always defined: the text after the last dot, lowercased, and the
  whole name when it has no dot.
\<close>

lemma fileExtension_total: "fileExtension name = Some (toLowerCase (last (split_on (CHR ''.'') name)))"
  using split_on_nonempty [of "CHR ''.''" name]
  by (simp add: fileExtension_def split: list.splits)

lemma ext_mp3: "fileExtension ''Talk.MP3'' = Some ''mp3''"
  by code_simp

lemma ext_png: "fileExtension ''photo.png'' = Some ''png''"
  by code_simp

lemma ext_txt: "fileExtension ''notes.txt'' = Some ''txt''"
  by code_simp

lemma ext_m4a: "fileExtension ''memo.M4A'' = Some ''m4a''"
  by code_simp

lemma ext_wav: "fileExtension ''call.wav'' = Some ''wav''"
  by code_simp

lemma ext_ogg: "fileExtension ''song.Ogg'' = Some ''ogg''"
  by code_simp

lemma ext_pdf: "fileExtension ''paper.v2.PDF'' = Some ''pdf''"
  by code_simp

lemma ext_md: "fileExtension ''README.md'' = Some ''md''"
  by code_simp

text \<open>
  C10. For a chosen file with lowercased extension \<open>ext\<close>, the ingestion calls are:
  one audio ingestion when \<open>ext\<close> is mp3, m4a, wav or ogg; one document ingestion when
  it is pdf, md or txt; none for any other extension, and then the only outcome is the
  unsupported-type message. The upload-complete callback runs only right after an
  ingestion call that succeeded.
\<close>

theorem handleFileUpload_dispatch:
  assumes "fileExtension name = Some ext"
  shows "ingest_calls (snd (handleFileUpload api cb (Some name) st))
           = (if ext \<in> {''mp3'', ''m4a'', ''wav'', ''ogg''} then [IngestAudio name 1 name]
              else if ext \<in> {''pdf'', ''md'', ''txt''} then [IngestDocument name 1 name]
              else []) \<and>
         (ext \<notin> {''mp3'', ''m4a'', ''wav'', ''ogg'', ''pdf'', ''md'', ''txt''} \<longrightarrow>
            handleFileUpload api cb (Some name) st
              = (st\<lparr>isUploading := False, upload_message := UnsupportedType ext\<rparr>, [])) \<and>
         (UploadComplete \<in> set (snd (handleFileUpload api cb (Some name) st)) \<longrightarrow>
            (\<exists>c r. api c = Inr r \<and>
               snd (handleFileUpload api cb (Some name) st) = [Call c, UploadComplete, ClearInput]))"
proof -
  have audio: "ext \<in> set audio_extensions \<longleftrightarrow> ext \<in> {''mp3'', ''m4a'', ''wav'', ''ogg''}"
    by (simp add: audio_extensions_def)
  have document: "ext \<in> set document_extensions \<longleftrightarrow> ext \<in> {''pdf'', ''md'', ''txt''}"
    by (simp add: document_extensions_def)
  have calls: "ingest_calls (snd (handleFileUpload api cb (Some name) st))
           = (if ext \<in> set audio_extensions then [IngestAudio name 1 name]
              else if ext \<in> set document_extensions then [IngestDocument name 1 name]
              else [])"
    using assms by (auto simp: handleFileUpload_def Let_def split: sum.splits)
  have unsupported: "handleFileUpload api cb (Some name) st
              = (st\<lparr>isUploading := False, upload_message := UnsupportedType ext\<rparr>, [])"
    if "ext \<notin> set audio_extensions" "ext \<notin> set document_extensions"
    using assms that by (simp add: handleFileUpload_def Let_def)
  have complete: "\<exists>c r. api c = Inr r \<and>
               snd (handleFileUpload api cb (Some name) st) = [Call c, UploadComplete, ClearInput]"
    if "UploadComplete \<in> set (snd (handleFileUpload api cb (Some name) st))"
    using assms that by (auto simp: handleFileUpload_def Let_def split: sum.splits if_splits)
  from calls have "ingest_calls (snd (handleFileUpload api cb (Some name) st))
           = (if ext \<in> {''mp3'', ''m4a'', ''wav'', ''ogg''} then [IngestAudio name 1 name]
              else if ext \<in> {''pdf'', ''md'', ''txt''} then [IngestDocument name 1 name]
              else [])"
    by (simp only: audio document)
  moreover have "handleFileUpload api cb (Some name) st
              = (st\<lparr>isUploading := False, upload_message := UnsupportedType ext\<rparr>, [])"
    if "ext \<notin> {''mp3'', ''m4a'', ''wav'', ''ogg'', ''pdf'', ''md'', ''txt''}"
  proof (rule unsupported)
    from that show "ext \<notin> set audio_extensions" by (simp add: audio_extensions_def)
    from that show "ext \<notin> set document_extensions" by (simp add: document_extensions_def)
  qed
  ultimately show ?thesis
    using complete by blast
qed

theorem handleFileUpload_dispatch_witness:
  "ingest_calls (snd (handleFileUpload ingest_ok True (Some ''Talk.MP3'') idle))
     = [IngestAudio ''Talk.MP3'' 1 ''Talk.MP3''] \<and>
   ingest_calls (snd (handleFileUpload ingest_ok True (Some ''memo.M4A'') idle))
     = [IngestAudio ''memo.M4A'' 1 ''memo.M4A''] \<and>
   ingest_calls (snd (handleFileUpload ingest_ok True (Some ''call.wav'') idle))
     = [IngestAudio ''call.wav'' 1 ''call.wav''] \<and>
   ingest_calls (snd (handleFileUpload ingest_ok True (Some ''song.Ogg'') idle))
     = [IngestAudio ''song.Ogg'' 1 ''song.Ogg''] \<and>
   ingest_calls (snd (handleFileUpload ingest_ok True (Some ''paper.v2.PDF'') idle))
     = [IngestDocument ''paper.v2.PDF'' 1 ''paper.v2.PDF''] \<and>
   ingest_calls (snd (handleFileUpload ingest_ok True (Some ''README.md'') idle))
     = [IngestDocument ''README.md'' 1 ''README.md''] \<and>
   ingest_calls (snd (handleFileUpload ingest_ok True (Some ''notes.txt'') idle))
     = [IngestDocument ''notes.txt'' 1 ''notes.txt''] \<and>
   UploadComplete \<in> set (snd (handleFileUpload ingest_ok True (Some ''Talk.MP3'') idle)) \<and>
   handleFileUpload ingest_ok True (Some ''photo.png'') idle
     = (\<lparr>isUploading = False, upload_message = UnsupportedType ''png''\<rparr>, [])"
  using handleFileUpload_dispatch [OF ext_mp3, of ingest_ok True idle]
    handleFileUpload_dispatch [OF ext_m4a, of ingest_ok True idle]
    handleFileUpload_dispatch [OF ext_wav, of ingest_ok True idle]
    handleFileUpload_dispatch [OF ext_ogg, of ingest_ok True idle]
    handleFileUpload_dispatch [OF ext_pdf, of ingest_ok True idle]
    handleFileUpload_dispatch [OF ext_md, of ingest_ok True idle]
    handleFileUpload_dispatch [OF ext_txt, of ingest_ok True idle]
    handleFileUpload_dispatch [OF ext_png, of ingest_ok True idle]
  by (simp add: idle_def handleFileUpload_def ext_mp3 audio_extensions_def ingest_ok_def)

text \<open>A failed ingestion is reported and logged; the callback does not run.\<close>

lemma failed_upload_no_callback:
  "handleFileUpload ingest_down True (Some ''notes.txt'') idle
     = (\<lparr>isUploading = False, upload_message = UploadFailed ''Network Error''\<rparr>,
        [Call (IngestDocument ''notes.txt'' 1 ''notes.txt''), LogError ''Network Error''])"
proof -
  have e: "fileExtension ''notes.txt'' = Some ''txt''"
    by code_simp
  show ?thesis
    by (simp add: handleFileUpload_def e audio_extensions_def document_extensions_def
        ingest_down_def idle_def)
qed

section \<open>Properties of the Planner's date resolution\<close>

lemma weekday_index_range: "0 \<le> weekday_index wd \<and> weekday_index wd < 7"
  by (cases wd) simp_all

lemma mod7_shift: "(a - (1 + (b - k - 1) mod 7) + 6) mod 7 = (a + 6 - b + k) mod (7::int)"
proof -
  have "(a - (1 + (b - k - 1) mod 7) + 6) mod 7 = ((a + 5) - (b - k - 1) mod 7) mod 7"
    by (simp add: algebra_simps)
  also have "\<dots> = ((a + 5) - (b - k - 1)) mod 7"
    by (rule mod_diff_right_eq)
  also have "\<dots> = (a + 6 - b + k) mod 7"
    by (simp add: algebra_simps)
  finally show ?thesis .
qed

lemma last_weekday_is_weekday: "weekday_of (resolve_relative D (LastWeekday wd)) = weekday_index wd"
proof -
  have "weekday_of (resolve_relative D (LastWeekday wd))
          = (D + 6 - (D + 6) mod 7 + weekday_index wd) mod 7"
    by (simp only: weekday_of_def resolve_relative.simps mod7_shift)
  also have "\<dots> = (7 * ((D + 6) div 7) + weekday_index wd) mod 7"
    by (simp add: minus_mod_eq_mult_div)
  also have "\<dots> = weekday_index wd mod 7"
    by (simp only: mod_mult_self4)
  also have "\<dots> = weekday_index wd"
    using weekday_index_range [of wd] by simp
  finally show ?thesis .
qed

lemma last_weekday_before: "resolve_relative D (LastWeekday wd) < D"
  by simp

lemma last_weekday_within_week: "D - 7 \<le> resolve_relative D (LastWeekday wd)"
  by simp

text \<open>No day strictly between the resolved date and today falls on the asked weekday.\<close>

lemma last_weekday_most_recent:
  assumes "resolve_relative D (LastWeekday wd) < d" and "d < D"
  shows "weekday_of d \<noteq> weekday_index wd"
proof
  assume eq: "weekday_of d = weekday_index wd"
  let ?r = "resolve_relative D (LastWeekday wd)"
  have "weekday_of ?r = weekday_of d"
    by (simp only: last_weekday_is_weekday eq)
  then have "(d + 6) mod 7 = (?r + 6) mod 7"
    by (simp only: weekday_of_def)
  then have "((d + 6) - (?r + 6)) mod 7 = 0"
    by (simp only: mod_eq_dvd_iff mod_0_imp_dvd dvd_imp_mod_0)
  then have "(d - ?r) mod 7 = 0"
    by (simp only: add_diff_cancel_right)
  moreover have "0 < d - ?r" "d - ?r < 7"
    using assms last_weekday_within_week [of D wd] by linarith+
  ultimately show False
    by simp
qed

text \<open>
  The ordinals agree with the calendar on the spec's scenario: 2024-01-09 is a Tuesday,
  it is "last Tuesday" on Friday 2024-01-12, and on a Tuesday "last Tuesday" is a week
  earlier; the day before 2024-03-01 is 2024-02-29.
\<close>

lemma scenario_2024_01_09:
  "weekday_of (ordinal 2024 1 9) = weekday_index Tuesday \<and>
   resolve_relative (ordinal 2024 1 12) (LastWeekday Tuesday) = ordinal 2024 1 9 \<and>
   resolve_relative (ordinal 2024 1 9) (LastWeekday Tuesday) = ordinal 2024 1 2 \<and>
   resolve_relative (ordinal 2024 3 1) Yesterday = ordinal 2024 2 29"
  by (simp add: weekday_of_def ordinal_def days_before_year_def month_lengths_def is_leap_def)

text \<open>
  C7. For every current date \<open>D\<close>, "yesterday" resolves to \<open>D - 1\<close>, and "last Tuesday"
  resolves to a date that is a Tuesday and lies strictly before \<open>D\<close>.
\<close>

theorem resolve_yesterday_and_last_tuesday:
  "resolve_relative D Yesterday = D - 1 \<and>
   weekday_of (resolve_relative D (LastWeekday Tuesday)) = weekday_index Tuesday \<and>
   resolve_relative D (LastWeekday Tuesday) < D"
  using last_weekday_is_weekday [of D Tuesday] last_weekday_before [of D Tuesday]
  by simp

theorem resolve_yesterday_and_last_tuesday_witness:
  "resolve_relative (ordinal 2024 1 12) Yesterday = ordinal 2024 1 11 \<and>
   weekday_of (resolve_relative (ordinal 2024 1 12) (LastWeekday Tuesday)) = 1 \<and>
   resolve_relative (ordinal 2024 1 12) (LastWeekday Tuesday) < ordinal 2024 1 12"
  using resolve_yesterday_and_last_tuesday [of "ordinal 2024 1 12"]
  by (simp add: ordinal_def days_before_year_def month_lengths_def is_leap_def)

section \<open>Properties of the Synthesizer\<close>

lemma draft_calls_append: "draft_calls (xs @ ys) = draft_calls xs + draft_calls ys"
  by (induction xs rule: draft_calls.induct) simp_all

text \<open>With \<open>left\<close> regenerations allowed, at most \<open>left + 1\<close> drafts are requested.\<close>

lemma draft_loop_bound: "draft_calls (fst (draft_loop draft check attempt left)) \<le> Suc left"
proof (induction left arbitrary: attempt)
  case 0
  show ?case by (simp split: sum.splits)
next
  case (Suc left)
  have "draft_calls (fst (draft_loop draft check (Suc attempt) left)) \<le> Suc left"
    by (rule Suc.IH)
  then show ?case
    by (auto simp: draft_calls_append split: sum.splits prod.splits)
qed

text \<open>
  C6. The Synthesizer issues at most two draft calls for a query. When the first draft's
  self-check fails, it drafts exactly once more and accepts the second draft whatever
  the second self-check says: the calls are draft, check, draft, check, and the answer
  is the second draft.
\<close>

theorem synthesize_at_most_two_drafts:
  "draft_calls (fst (synthesize draft check cites cites_doc timeline documents)) \<le> 2 \<and>
   (draft 0 = Inr d1 \<and> check 0 d1 = Inr False \<and> draft 1 = Inr d2 \<and> check 1 d2 = Inr verdict \<longrightarrow>
      fst (synthesize draft check cites cites_doc timeline documents)
        = [DraftCall 0, SelfCheckCall 0, DraftCall 1, SelfCheckCall 1] \<and>
      map_sum id result_answer (snd (synthesize draft check cites cites_doc timeline documents)) = Inr d2)"
proof -
  have "draft_calls (fst (draft_loop draft check 0 max_regenerations)) \<le> 2"
    using draft_loop_bound [of draft check 0 max_regenerations] by (simp add: max_regenerations_def)
  then have a: "draft_calls (fst (synthesize draft check cites cites_doc timeline documents)) \<le> 2"
    by (cases "draft_loop draft check 0 max_regenerations") (simp add: synthesize_def)
  have b: "fst (synthesize draft check cites cites_doc timeline documents)
        = [DraftCall 0, SelfCheckCall 0, DraftCall 1, SelfCheckCall 1] \<and>
      map_sum id result_answer (snd (synthesize draft check cites cites_doc timeline documents)) = Inr d2"
    if "draft 0 = Inr d1" "check 0 d1 = Inr False" "draft 1 = Inr d2" "check 1 d2 = Inr verdict"
    using that by (simp add: synthesize_def max_regenerations_def)
  from a b show ?thesis by blast
qed

theorem synthesize_at_most_two_drafts_witness:
  "draft_calls (fst (synthesize two_drafts second_passes cites_all cites_all_doc meeting_chunks [])) = 2 \<and>
   map_sum id result_answer (snd (synthesize two_drafts second_passes cites_all cites_all_doc meeting_chunks []))
     = Inr ''second draft''"
  using synthesize_at_most_two_drafts
    [of two_drafts second_passes cites_all cites_all_doc meeting_chunks "[]"
        "''first draft''" "''second draft''" True]
  by (simp add: second_passes_def)

text \<open>When the first self-check passes, one draft is requested and it is the answer.\<close>

lemma synthesize_first_pass:
  "draft 0 = Inr d1 \<Longrightarrow> check 0 d1 = Inr True \<Longrightarrow>
     fst (synthesize draft check cites cites_doc timeline documents) = [DraftCall 0, SelfCheckCall 0] \<and>
     map_sum id result_answer (snd (synthesize draft check cites cites_doc timeline documents)) = Inr d1"
  by (simp add: synthesize_def max_regenerations_def)

lemma set_insert_date: "set (insert_date d xs) = insert d (set xs)"
  by (induction xs) auto

lemma strict_insert_date: "sorted_wrt (<) xs \<Longrightarrow> sorted_wrt (<) (insert_date d xs)"
  by (induction xs) (auto simp: set_insert_date)

lemma set_dates_of: "set (dates_of chunks) = tl_date ` set chunks"
  by (induction chunks) (simp_all add: dates_of_def set_insert_date)

lemma strict_dates_of: "sorted_wrt (<) (dates_of chunks)"
  by (induction chunks) (simp_all add: dates_of_def strict_insert_date)

lemma meeting_synthesis:
  "snd (synthesize two_drafts second_passes cites_all cites_all_doc meeting_chunks []) = Inr meeting_result"
  by (simp add: synthesize_def max_regenerations_def second_passes_def cites_all_def
      meeting_result_def meeting_chunks_def dates_of_def ordinal_def days_before_year_def
      month_lengths_def is_leap_def)

text \<open>
  C4. In the result of every successfully answered query, the dates used are dates of
  the timeline chunks cited in the answer, no date occurs twice, and the list is sorted
  ascending.
\<close>

theorem datesUsed_subset_distinct_sorted:
  assumes "snd (synthesize draft check cites cites_doc timeline documents) = Inr r"
  shows "set (datesUsed r) \<subseteq> tl_date ` set (timelineChunks r) \<and>
         distinct (datesUsed r) \<and> sorted (datesUsed r)"
proof -
  obtain calls out where l: "draft_loop draft check 0 max_regenerations = (calls, out)"
    by (cases "draft_loop draft check 0 max_regenerations")
  from assms l obtain ans passed where
    r: "r = \<lparr>result_answer = ans, timelineChunks = filter (cites ans) timeline,
             documentChunks = filter (cites_doc ans) documents,
             datesUsed = dates_of (filter (cites ans) timeline),
             first_check_passed = passed\<rparr>"
    by (auto simp: synthesize_def split: sum.splits prod.splits)
  have "sorted_wrt (<) (datesUsed r)"
    by (simp add: r strict_dates_of)
  then have "distinct (datesUsed r)" "sorted (datesUsed r)"
    by (simp_all add: strict_sorted_iff)
  moreover have "set (datesUsed r) \<subseteq> tl_date ` set (timelineChunks r)"
    by (simp add: r set_dates_of)
  ultimately show ?thesis by simp
qed

theorem datesUsed_subset_distinct_sorted_witness:
  "snd (synthesize two_drafts second_passes cites_all cites_all_doc meeting_chunks []) = Inr meeting_result \<and>
   datesUsed meeting_result = [ordinal 2024 1 8, ordinal 2024 1 9] \<and>
   set (datesUsed meeting_result) \<subseteq> tl_date ` set (timelineChunks meeting_result) \<and>
   distinct (datesUsed meeting_result) \<and> sorted (datesUsed meeting_result)"
  using datesUsed_subset_distinct_sorted [OF meeting_synthesis] meeting_synthesis
  by (simp add: meeting_result_def)

section \<open>Properties of the answering boundary\<close>




lemma length_top_ranked: "length (top_ranked k precedes es) \<le> k"
  by (simp add: top_ranked_def)







end
